theory Spec2Isabelle
  imports Main "HOL-Library.Word"
begin

section \<open>Exceptions and the terminal error\<close>

text \<open>
  The retry loop of \<^verbatim>\<open>core.py\<close> tells exceptions apart by class only: a handler
  for \<^verbatim>\<open>ValueError\<close> comes first, a handler for every other \<^verbatim>\<open>Exception\<close> second.
  An exception is therefore modelled by its class, as far as the handlers look at it, and
  by \<^verbatim>\<open>str(e)\<close>, the message that is copied into the \<^verbatim>\<open>FetchError\<close>.
  Exceptions outside \<^verbatim>\<open>Exception\<close> (cancellation of the coroutine, keyboard interrupt)
  are not results of the calls modelled here and are left out.
\<close>

datatype exn =
    ValueError string
  | OtherException string

text \<open>\<^verbatim>\<open>exceptions.py\<close>: \<^verbatim>\<open>FetchError(url, message)\<close>.\<close>

datatype fetch_error = FetchError string string

section \<open>The retry loop\<close>

text \<open>
  What one call of \<^verbatim>\<open>Fetcher.fetch\<close> does is recorded as a list of steps, oldest
  first: \<open>Attempt n evs\<close> is the call of \<^verbatim>\<open>self._fetch_once\<close> made while the local
  variable \<^verbatim>\<open>attempt\<close> is \<open>n\<close>, with the effects \<open>evs\<close> of that call, and \<open>Sleep d\<close>
  is \<^verbatim>\<open>await asyncio.sleep(d)\<close>.
\<close>

datatype 'io step =
    Attempt nat "'io list"
  | Sleep nat

definition delay_base :: nat where
  "delay_base = 1"

text \<open>
  \<^verbatim>\<open>Fetcher._fetch_with_retries\<close>, the \<^verbatim>\<open>while True\<close> loop. The parameter \<open>once\<close>
  stands for \<^verbatim>\<open>self._fetch_once\<close>: \<open>once n\<close> is the outcome (an exception raised, or
  the value returned) and the effects of its \<open>n\<close>-th call, calls counted from 1, which
  is also the value of \<^verbatim>\<open>attempt\<close> during that call. \<open>retries\<close> is \<^verbatim>\<open>self.retries\<close>,
  any Python integer. \<open>attempt\<close> is the value of the counter on entry to an iteration and
  \<open>tr\<close> the steps made so far. The loop need not end (\<^verbatim>\<open>retries\<close> below 1 and an attempt
  that fails every time), so the result is an option and not returning is \<open>None\<close>.
\<close>

partial_function (option) retry_loop ::
  "(nat \<Rightarrow> (exn + 'r) \<times> 'io list) \<Rightarrow> int \<Rightarrow> string \<Rightarrow> nat \<Rightarrow> 'io step list
   \<Rightarrow> ((fetch_error + 'r) \<times> 'io step list) option"
where
  "retry_loop once retries url attempt tr =
     (let attempt = attempt + 1 in
      case once attempt of
        (Inr r, evs) \<Rightarrow> Some (Inr r, tr @ [Attempt attempt evs])
      | (Inl (ValueError ve), evs) \<Rightarrow>
          Some (Inl (FetchError url ve), tr @ [Attempt attempt evs])
      | (Inl (OtherException e), evs) \<Rightarrow>
          if int attempt = retries
          then Some (Inl (FetchError url e), tr @ [Attempt attempt evs])
          else retry_loop once retries url attempt
                 (tr @ [Attempt attempt evs, Sleep (delay_base * 2 ^ attempt)]))"

declare retry_loop.simps [code]

definition fetch_with_retries_from ::
  "(nat \<Rightarrow> (exn + 'r) \<times> 'io list) \<Rightarrow> int \<Rightarrow> string
   \<Rightarrow> ((fetch_error + 'r) \<times> 'io step list) option"
where
  "fetch_with_retries_from once retries url = retry_loop once retries url 0 []"

text \<open>The number of calls of \<^verbatim>\<open>_fetch_once\<close> in a run, and the sleeps in their order.\<close>

fun attempts :: "'io step list \<Rightarrow> nat" where
  "attempts [] = 0"
| "attempts (Attempt n evs # tr) = Suc (attempts tr)"
| "attempts (Sleep d # tr) = attempts tr"

fun sleeps :: "'io step list \<Rightarrow> nat list" where
  "sleeps [] = []"
| "sleeps (Attempt n evs # tr) = sleeps tr"
| "sleeps (Sleep d # tr) = d # sleeps tr"

text \<open>An attempt fails retriably when it raises an exception that is not a \<^verbatim>\<open>ValueError\<close>.\<close>

fun fails_retriably :: "(exn + 'r) \<times> 'io list \<Rightarrow> bool" where
  "fails_retriably (Inl (OtherException e), evs) = True"
| "fails_retriably (Inl (ValueError ve), evs) = False"
| "fails_retriably (Inr r, evs) = False"

text \<open>The steps of \<open>k\<close> failed attempts after attempt \<open>a\<close>, each followed by its sleep.\<close>

definition failed_rounds :: "(nat \<Rightarrow> (exn + 'r) \<times> 'io list) \<Rightarrow> nat \<Rightarrow> nat \<Rightarrow> 'io step list" where
  "failed_rounds once a k =
     concat (map (\<lambda>n. [Attempt n (snd (once n)), Sleep (delay_base * 2 ^ n)]) [Suc a..<Suc (a + k)])"

section \<open>Libraries taken as parameters\<close>

text \<open>
  Bytes are lists of 8-bit words. The codecs (\<^verbatim>\<open>gzip\<close>, \<^verbatim>\<open>zlib\<close>), \<^verbatim>\<open>hashlib\<close>
  and \<^verbatim>\<open>pathlib\<close> are libraries the repository calls and does not contain; the
  functions it calls are the fields of a record that every definition below takes as
  its first argument. A decoder raises on input it cannot decode, so it returns a sum.
  \<open>sha256_hex b\<close> is \<^verbatim>\<open>hashlib.sha256(b).hexdigest()\<close> and \<open>path_str s\<close> is
  \<^verbatim>\<open>str(Path(s))\<close>. The two encoders are the ones \<^verbatim>\<open>tests/test_decompress.py\<close> calls.
\<close>

type_synonym bytes = "8 word list"

type_synonym headers = "(string \<times> string) list"

record libs =
  gzip_compress :: "bytes \<Rightarrow> bytes"
  gzip_decompress :: "bytes \<Rightarrow> exn + bytes"
  zlib_compress :: "bytes \<Rightarrow> bytes"
  zlib_decompress :: "bytes \<Rightarrow> exn + bytes"
  sha256_hex :: "bytes \<Rightarrow> string"
  path_str :: "string \<Rightarrow> string"

text \<open>
  A \<^verbatim>\<open>hashlib.sha256()\<close> object is modelled by the bytes it has been fed: by the
  library's contract, repeated calls of \<^verbatim>\<open>update\<close> are equivalent to one call with
  the concatenation of the arguments.
\<close>

type_synonym sha256_state = bytes

definition sha256_new :: sha256_state where
  "sha256_new = []"

definition sha256_update :: "sha256_state \<Rightarrow> bytes \<Rightarrow> sha256_state" where
  "sha256_update h chunk = h @ chunk"

definition hexdigest :: "libs \<Rightarrow> sha256_state \<Rightarrow> string" where
  "hexdigest L h = sha256_hex L h"

section \<open>decompress.py\<close>

text \<open>The body of the \<^verbatim>\<open>try\<close> block of \<^verbatim>\<open>decompress\<close>: it raises what the decoder raises.\<close>

definition decompress_try :: "libs \<Rightarrow> bytes \<Rightarrow> string \<Rightarrow> bool \<Rightarrow> exn + bytes" where
  "decompress_try L data encoding is_chunked =
     (if is_chunked then Inr data
      else if encoding = ''gzip'' then gzip_decompress L data
      else if encoding = ''deflate'' then zlib_decompress L data
      else Inr data)"

text \<open>\<^verbatim>\<open>decompress\<close>: the \<^verbatim>\<open>try\<close> block under \<^verbatim>\<open>except Exception: return data\<close>.\<close>

definition decompress :: "libs \<Rightarrow> bytes \<Rightarrow> string \<Rightarrow> bool \<Rightarrow> exn + bytes" where
  "decompress L data encoding is_chunked =
     (case decompress_try L data encoding is_chunked of
        Inr out \<Rightarrow> Inr out
      | Inl e \<Rightarrow> Inr data)"

text \<open>
  The encoders of the round-trip tests: \<^verbatim>\<open>gzip.compress\<close> for the label \<^verbatim>\<open>gzip\<close> and
  \<^verbatim>\<open>zlib.compress\<close> for the label \<^verbatim>\<open>deflate\<close>.
\<close>

definition encode :: "libs \<Rightarrow> string \<Rightarrow> bytes \<Rightarrow> bytes" where
  "encode L encoding data =
     (if encoding = ''gzip'' then gzip_compress L data
      else if encoding = ''deflate'' then zlib_compress L data
      else data)"

section \<open>resource.py\<close>

definition CHUNK_SIZE :: nat where
  "CHUNK_SIZE = 8192"

text \<open>
  The response object, as far as \<^verbatim>\<open>Resource.from_response\<close> reads it: each field is
  what the accessor of that name returns. \<open>resp_read\<close> is \<^verbatim>\<open>await resp.read()\<close>;
  \<open>resp_iter_chunked n\<close> is the list of chunks that \<^verbatim>\<open>resp.content.iter_chunked(n)\<close>
  yields and, when the iteration ends by an exception and not by exhaustion, that
  exception; \<open>resp_get_encoding\<close> is \<^verbatim>\<open>resp.get_encoding()\<close>. \<open>resp_headers\<close> are the
  header lines of the response in their order, a key may occur more than once and in
  any spelling. \<open>resp_wire_body\<close> is the body as the server sent it, before any content
  decoding by the HTTP client: the code has no accessor for it, it is recorded to say what
  was transferred.
\<close>

record response =
  resp_url :: string
  resp_status :: int
  resp_headers :: headers
  resp_wire_body :: bytes
  resp_read :: "exn + bytes"
  resp_iter_chunked :: "nat \<Rightarrow> bytes list \<times> exn option"
  resp_get_encoding :: "exn + string option"

text \<open>The metadata dictionary has a fixed set of keys, so it is a record.\<close>

record metadata =
  md_headers :: headers
  md_status_code :: int
  md_content_type :: string
  md_mime :: "string option"
  md_encoding :: "string option"
  md_etag :: "string option"
  md_last_modified :: "string option"
  md_content_encoding :: string
  md_fetched_at :: string

text \<open>The attributes of \<^verbatim>\<open>Resource\<close>; \<open>None\<close> is Python's \<^verbatim>\<open>None\<close>.\<close>

record resource =
  url :: string
  redirected_url :: "string option"
  content :: "bytes option"
  hash :: "string option"
  metadata :: "metadata option"
  fetched_at :: "string option"
  file_path :: "string option"

text \<open>
  The effects of one attempt, oldest first. A request that raises is still issued; a
  file that is opened is closed when its \<^verbatim>\<open>with\<close> block is left, also by an exception.
\<close>

datatype io =
    Session_get string headers
  | Session_post string headers
  | Resp_read
  | Open_wb string
  | Next_chunk bytes
  | Hash_update bytes
  | File_write string bytes
  | File_close string

text \<open>
  What the world outside does during one attempt: the answer of the session to a
  \<^verbatim>\<open>get\<close> and to a \<^verbatim>\<open>post\<close> (a response, or an exception), whether opening a path
  for writing raises, and the clock.
\<close>

record attempt_env =
  session_get :: "string \<Rightarrow> headers \<Rightarrow> exn + response"
  session_post :: "string \<Rightarrow> headers \<Rightarrow> exn + response"
  open_wb :: "string \<Rightarrow> exn option"
  utcnow :: string

text \<open>
  \<^verbatim>\<open>str.lower()\<close>. A character of a string is a code point below 256; the letters
  with a lower case among them are A to Z and the Latin-1 capitals from \<open>0xC0\<close> to
  \<open>0xDE\<close> without the multiplication sign \<open>0xD7\<close>, and the lower case of each is 32
  above it. Every other character is left as it is.
\<close>

definition upper_case_letters :: string where
  "upper_case_letters =
     ''ABCDEFGHIJKLMNOPQRSTUVWXYZ'' @
     [CHR 0xC0, CHR 0xC1, CHR 0xC2, CHR 0xC3, CHR 0xC4, CHR 0xC5, CHR 0xC6, CHR 0xC7,
      CHR 0xC8, CHR 0xC9, CHR 0xCA, CHR 0xCB, CHR 0xCC, CHR 0xCD, CHR 0xCE, CHR 0xCF,
      CHR 0xD0, CHR 0xD1, CHR 0xD2, CHR 0xD3, CHR 0xD4, CHR 0xD5, CHR 0xD6,
      CHR 0xD8, CHR 0xD9, CHR 0xDA, CHR 0xDB, CHR 0xDC, CHR 0xDD, CHR 0xDE]"

definition lower_case_letters :: string where
  "lower_case_letters =
     ''abcdefghijklmnopqrstuvwxyz'' @
     [CHR 0xE0, CHR 0xE1, CHR 0xE2, CHR 0xE3, CHR 0xE4, CHR 0xE5, CHR 0xE6, CHR 0xE7,
      CHR 0xE8, CHR 0xE9, CHR 0xEA, CHR 0xEB, CHR 0xEC, CHR 0xED, CHR 0xEE, CHR 0xEF,
      CHR 0xF0, CHR 0xF1, CHR 0xF2, CHR 0xF3, CHR 0xF4, CHR 0xF5, CHR 0xF6,
      CHR 0xF8, CHR 0xF9, CHR 0xFA, CHR 0xFB, CHR 0xFC, CHR 0xFD, CHR 0xFE]"

definition lower_char :: "char \<Rightarrow> char" where
  "lower_char c =
     (case map_of (zip upper_case_letters lower_case_letters) c of
        Some l \<Rightarrow> l
      | None \<Rightarrow> c)"

definition lower :: "string \<Rightarrow> string" where
  "lower s = map lower_char s"

text \<open>
  \<^verbatim>\<open>resp.headers.get(key)\<close> and \<^verbatim>\<open>resp.headers.get(key, default)\<close>. The headers of
  an aiohttp response are a case-insensitive multi-dictionary: keys are compared without
  regard to case, and of several lines with the key the first one is returned.
\<close>

definition headers_get :: "headers \<Rightarrow> string \<Rightarrow> string option" where
  "headers_get hs k = map_of (map (\<lambda>(key, v). (lower key, v)) hs) (lower k)"

definition headers_get_default :: "headers \<Rightarrow> string \<Rightarrow> string \<Rightarrow> string" where
  "headers_get_default hs k d = (case headers_get hs k of None \<Rightarrow> d | Some v \<Rightarrow> v)"

text \<open>
  \<^verbatim>\<open>dict(resp.headers)\<close>: one entry for each key as it is spelled, in the order of the
  first line with that spelling, with the value that a lookup of the key returns.
\<close>

definition headers_dict :: "headers \<Rightarrow> headers" where
  "headers_dict hs =
     map (\<lambda>k. (k, headers_get_default hs k [])) (rev (remdups (rev (map fst hs))))"

text \<open>\<^verbatim>\<open>content_type.split(";")[0]\<close>: the text before the first semicolon.\<close>

definition split_semicolon_first :: "string \<Rightarrow> string" where
  "split_semicolon_first s = takeWhile (\<lambda>c. c \<noteq> CHR '';'') s"

text \<open>
  The body of the \<^verbatim>\<open>async for\<close> loop of \<^verbatim>\<open>_stream_and_hash\<close>, over the chunks
  the iterator yields: the digest is updated, then the chunk is written.
\<close>

fun stream_chunks :: "string \<Rightarrow> bytes list \<Rightarrow> sha256_state \<Rightarrow> sha256_state \<times> io list" where
  "stream_chunks path [] h = (h, [])"
| "stream_chunks path (chunk # rest) h =
     (case stream_chunks path rest (sha256_update h chunk) of
        (h', evs) \<Rightarrow> (h', Next_chunk chunk # Hash_update chunk # File_write path chunk # evs))"

text \<open>
  \<^verbatim>\<open>Resource._stream_and_hash\<close>. The digest object is the caller's and is updated in
  place, so its new state is returned beside the result.
\<close>

definition stream_and_hash ::
  "libs \<Rightarrow> attempt_env \<Rightarrow> response \<Rightarrow> string \<Rightarrow> sha256_state
   \<Rightarrow> (exn + string) \<times> sha256_state \<times> io list"
where
  "stream_and_hash L env resp stream_to h =
     (let path = path_str L stream_to in
      case open_wb env path of
        Some e \<Rightarrow> (Inl e, h, [])
      | None \<Rightarrow>
          (case resp_iter_chunked resp CHUNK_SIZE of
             (chunks, stop) \<Rightarrow>
               (case stream_chunks path chunks h of
                  (h', evs) \<Rightarrow>
                    (case stop of
                       Some e \<Rightarrow> (Inl e, h', Open_wb path # evs @ [File_close path])
                     | None \<Rightarrow> (Inr path, h', Open_wb path # evs @ [File_close path])))))"

text \<open>\<^verbatim>\<open>Resource._read_and_decompress\<close>.\<close>

definition read_and_decompress :: "libs \<Rightarrow> response \<Rightarrow> string \<Rightarrow> (exn + bytes) \<times> io list" where
  "read_and_decompress L resp encoding =
     (case resp_read resp of
        Inl e \<Rightarrow> (Inl e, [Resp_read])
      | Inr raw \<Rightarrow> (decompress L raw encoding False, [Resp_read]))"

text \<open>\<^verbatim>\<open>Resource._extract_metadata\<close>; only \<^verbatim>\<open>resp.get_encoding()\<close> can raise in it.\<close>

definition extract_metadata ::
  "response \<Rightarrow> string \<Rightarrow> string option \<Rightarrow> string \<Rightarrow> string \<Rightarrow> exn + metadata"
where
  "extract_metadata resp content_type mime encoding fetched_at' =
     (case resp_get_encoding resp of
        Inl e \<Rightarrow> Inl e
      | Inr enc \<Rightarrow>
          Inr \<lparr> md_headers = headers_dict (resp_headers resp),
                md_status_code = resp_status resp,
                md_content_type = content_type,
                md_mime = mime,
                md_encoding = enc,
                md_etag = headers_get (resp_headers resp) ''ETag'',
                md_last_modified = headers_get (resp_headers resp) ''Last-Modified'',
                md_content_encoding = encoding,
                md_fetched_at = fetched_at' \<rparr>)"

text \<open>
  \<^verbatim>\<open>if stream_to:\<close> on an optional string: \<^verbatim>\<open>None\<close> and the empty string are false.
\<close>

fun truthy :: "string option \<Rightarrow> bool" where
  "truthy None = False"
| "truthy (Some []) = False"
| "truthy (Some (c # cs)) = True"

text \<open>
  The two branches of \<^verbatim>\<open>from_response\<close>: the values of \<^verbatim>\<open>content_bytes\<close>,
  \<^verbatim>\<open>final_path\<close> and of the digest object after the \<^verbatim>\<open>if\<close>, or the exception raised.
\<close>

definition materialize ::
  "libs \<Rightarrow> attempt_env \<Rightarrow> response \<Rightarrow> string \<Rightarrow> string option
   \<Rightarrow> (exn + bytes option \<times> string option \<times> sha256_state) \<times> io list"
where
  "materialize L env resp encoding stream_to =
     (if truthy stream_to then
        (case stream_and_hash L env resp (the stream_to) sha256_new of
           (Inl e, h, evs) \<Rightarrow> (Inl e, evs)
         | (Inr final_path, h, evs) \<Rightarrow> (Inr (None, Some final_path, h), evs))
      else
        (case read_and_decompress L resp encoding of
           (Inl e, evs) \<Rightarrow> (Inl e, evs)
         | (Inr content_bytes, evs) \<Rightarrow>
             (Inr (Some content_bytes, None, sha256_update sha256_new content_bytes),
              evs @ [Hash_update content_bytes])))"

text \<open>
  \<^verbatim>\<open>Resource.from_response\<close>, with the constructor inlined: a path given as a string
  is stored as \<^verbatim>\<open>Path(file_path)\<close>, which is kept here as the string.
\<close>

definition from_response ::
  "libs \<Rightarrow> attempt_env \<Rightarrow> string \<Rightarrow> response \<Rightarrow> string \<Rightarrow> string option
   \<Rightarrow> (exn + resource) \<times> io list"
where
  "from_response L env url' resp fetched_at' stream_to =
     (let redirected_url' = resp_url resp;
          content_type = headers_get_default (resp_headers resp) ''Content-Type'' [];
          mime = (if content_type \<noteq> [] then Some (split_semicolon_first content_type) else None);
          encoding = lower (headers_get_default (resp_headers resp) ''Content-Encoding'' [])
      in case materialize L env resp encoding stream_to of
           (Inl e, evs) \<Rightarrow> (Inl e, evs)
         | (Inr (content_bytes, final_path, sha256hash), evs) \<Rightarrow>
             (case extract_metadata resp content_type mime encoding fetched_at' of
                Inl e \<Rightarrow> (Inl e, evs)
              | Inr metadata' \<Rightarrow>
                  (Inr \<lparr> url = url',
                         redirected_url = Some redirected_url',
                         content = content_bytes,
                         hash = Some (hexdigest L sha256hash),
                         metadata = Some metadata',
                         fetched_at = Some fetched_at',
                         file_path = final_path \<rparr>, evs)))"

section \<open>core.py\<close>

definition DEFAULT_USER_AGENT :: string where
  "DEFAULT_USER_AGENT = ''Fetcher/1.0''"

definition DEFAULT_HEADERS :: headers where
  "DEFAULT_HEADERS = [(''User-Agent'', DEFAULT_USER_AGENT), (''Accept-Encoding'', ''gzip, deflate'')]"

text \<open>
  \<^verbatim>\<open>headers or DEFAULT_HEADERS.copy()\<close>: \<^verbatim>\<open>None\<close> and the empty dictionary are false.
\<close>

fun headers_or_default :: "headers option \<Rightarrow> headers" where
  "headers_or_default None = DEFAULT_HEADERS"
| "headers_or_default (Some []) = DEFAULT_HEADERS"
| "headers_or_default (Some (h # hs)) = h # hs"

text \<open>
  \<^verbatim>\<open>Fetcher._fetch_once\<close>. \<^verbatim>\<open>HttpMethod\<close> is a string enumeration, so the comparisons
  with its members are comparisons of strings, and the method is a string: the tests
  pass \<^verbatim>\<open>"PUT"\<close>.
\<close>

definition fetch_once ::
  "libs \<Rightarrow> attempt_env \<Rightarrow> string \<Rightarrow> string \<Rightarrow> string option \<Rightarrow> headers option
   \<Rightarrow> (exn + resource) \<times> io list"
where
  "fetch_once L env url' method stream_to headers0 =
     (let headers' = headers_or_default headers0 in
      if method = ''GET'' then
        (case session_get env url' headers' of
           Inl e \<Rightarrow> (Inl e, [Session_get url' headers'])
         | Inr resp \<Rightarrow>
             (case from_response L env url' resp (utcnow env) stream_to of
                (res, evs) \<Rightarrow> (res, Session_get url' headers' # evs)))
      else if method = ''POST'' then
        (case session_post env url' headers' of
           Inl e \<Rightarrow> (Inl e, [Session_post url' headers'])
         | Inr resp \<Rightarrow>
             (case from_response L env url' resp (utcnow env) stream_to of
                (res, evs) \<Rightarrow> (res, Session_post url' headers' # evs)))
      else (Inl (ValueError (''Unsupported HTTP method: '' @ method)), []))"

text \<open>
  \<^verbatim>\<open>Fetcher._fetch_with_retries\<close> on the real \<^verbatim>\<open>_fetch_once\<close>: \<open>world n\<close> is what the
  world outside does during the \<open>n\<close>-th attempt. \<^verbatim>\<open>Fetcher.fetch\<close> returns what this
  returns, once it holds a slot of the semaphore.
\<close>

definition fetch_with_retries ::
  "libs \<Rightarrow> (nat \<Rightarrow> attempt_env) \<Rightarrow> int \<Rightarrow> string \<Rightarrow> string \<Rightarrow> string option \<Rightarrow> headers option
   \<Rightarrow> ((fetch_error + resource) \<times> io step list) option"
where
  "fetch_with_retries L world retries url' method stream_to headers0 =
     fetch_with_retries_from (\<lambda>n. fetch_once L (world n) url' method stream_to headers0) retries url'"

text \<open>
  The content of the file at \<open>p\<close> after the effects \<open>evs\<close>, from the content \<open>c\<close>
  before them (\<open>None\<close>: no file): opening for writing truncates, writing appends.
\<close>

fun file_after :: "io list \<Rightarrow> string \<Rightarrow> bytes option \<Rightarrow> bytes option" where
  "file_after [] p c = c"
| "file_after (Open_wb q # evs) p c = file_after evs p (if q = p then Some [] else c)"
| "file_after (File_write q b # evs) p c =
     file_after evs p (if q = p then map_option (\<lambda>old. old @ b) c else c)"
| "file_after (ev # evs) p c = file_after evs p c"

text \<open>The effects of a whole run, and the requests among the effects of an attempt.\<close>

fun run_io :: "'io step list \<Rightarrow> 'io list" where
  "run_io [] = []"
| "run_io (Attempt n evs # tr) = evs @ run_io tr"
| "run_io (Sleep d # tr) = run_io tr"


section \<open>The shape of a run that returns\<close>

text \<open>
  What the loop makes of the outcome of its last attempt: a value is returned, an
  exception of either class is wrapped into a \<^verbatim>\<open>FetchError\<close> with the URL and its message.
\<close>

definition surfaced :: "string \<Rightarrow> exn + 'r \<Rightarrow> fetch_error + 'r" where
  "surfaced u' x =
     (case x of
        Inr r \<Rightarrow> Inr r
      | Inl (ValueError ve) \<Rightarrow> Inl (FetchError u' ve)
      | Inl (OtherException e) \<Rightarrow> Inl (FetchError u' e))"

text \<open>
  A run from counter \<open>a\<close> and steps \<open>tr\<close> that makes \<open>k\<close> failed rounds and ends with
  attempt \<open>a + k + 1\<close>: every round fails retriably below the ceiling, and the last
  attempt either does not fail retriably or is the one the ceiling names.
\<close>

definition run_shape ::
  "(nat \<Rightarrow> (exn + 'r) \<times> 'io list) \<Rightarrow> int \<Rightarrow> string \<Rightarrow> nat \<Rightarrow> 'io step list \<Rightarrow> nat
   \<Rightarrow> ((fetch_error + 'r) \<times> 'io step list) \<Rightarrow> bool"
where
  "run_shape once retries u' a tr k y \<longleftrightarrow>
     (\<forall>n. a < n \<and> n \<le> a + k \<longrightarrow> fails_retriably (once n) \<and> int n \<noteq> retries) \<and>
     (fails_retriably (once (Suc (a + k))) \<longrightarrow> int (Suc (a + k)) = retries) \<and>
     y = (surfaced u' (fst (once (Suc (a + k)))),
          tr @ failed_rounds once a k @ [Attempt (Suc (a + k)) (snd (once (Suc (a + k))))])"

section \<open>Instances from the tests\<close>

text \<open>
  \<^verbatim>\<open>tests/test_fetcher_core.py\<close>, \<^verbatim>\<open>mock_fetch_once\<close>: the replacement of
  \<^verbatim>\<open>_fetch_once\<close> that raises \<^verbatim>\<open>aiohttp.ClientError\<close> while its call count is below a
  threshold (2 in one test, 3 in the other) and returns a resource afterwards; the
  resource is cut down to its content, as text.
\<close>

definition mock_fetch_once :: "nat \<Rightarrow> nat \<Rightarrow> (exn + string) \<times> io list" where
  "mock_fetch_once threshold call_count =
     (if call_count < threshold
      then (Inl (OtherException ''Simulated network error''), [])
      else (Inr ''Recovered content'', []))"

text \<open>
  \<^verbatim>\<open>tests/test_resource.py\<close>, \<^verbatim>\<open>DummyResp\<close>: \<^verbatim>\<open>read\<close> returns the body and
  \<^verbatim>\<open>iter_chunked(n)\<close> yields the slices \<^verbatim>\<open>body[i : i + n]\<close> for \<^verbatim>\<open>i\<close> in
  \<^verbatim>\<open>range(0, len(body), n)\<close>, which raises \<^verbatim>\<open>ValueError\<close> for \<^verbatim>\<open>n = 0\<close>.
  \<open>sliced body m\<close> are the slices of \<open>m\<close> bytes. The test double has no transport: what
  it delivers is the body, and its headers are a dictionary whose keys the tests spell
  as the code asks for them.
\<close>

definition sliced :: "bytes \<Rightarrow> nat \<Rightarrow> bytes list" where
  "sliced body m =
     map (\<lambda>i. take m (drop (i * m) body)) [0..<(length body + m - 1) div m]"

definition DummyResp :: "string \<Rightarrow> headers \<Rightarrow> int \<Rightarrow> bytes \<Rightarrow> string \<Rightarrow> response" where
  "DummyResp url' headers' status content_bytes encoding =
     \<lparr> resp_url = url',
       resp_status = status,
       resp_headers = headers',
       resp_wire_body = content_bytes,
       resp_read = Inr content_bytes,
       resp_iter_chunked =
         (\<lambda>n. if n = 0 then ([], Some (ValueError ''range() arg 3 must not be zero''))
              else (sliced content_bytes n, None)),
       resp_get_encoding = Inr (Some encoding) \<rparr>"

text \<open>
  A response of a slower transport, which has at most four bytes ready whenever the
  iterator asks: the chunks are shorter than the size asked for.
\<close>

definition TricklingResp :: "string \<Rightarrow> headers \<Rightarrow> int \<Rightarrow> bytes \<Rightarrow> string \<Rightarrow> response" where
  "TricklingResp url' headers' status content_bytes encoding =
     (DummyResp url' headers' status content_bytes encoding)
       \<lparr> resp_iter_chunked := (\<lambda>n. (sliced content_bytes (min n 4), None)) \<rparr>"

text \<open>
  \<^verbatim>\<open>tests/fakers.py\<close>, \<^verbatim>\<open>FakeSession\<close>: \<^verbatim>\<open>get\<close> and \<^verbatim>\<open>post\<close> return the one
  response the session was made with. Every path can be opened.
\<close>

definition FakeSession :: "response \<Rightarrow> attempt_env" where
  "FakeSession resp =
     \<lparr> session_get = (\<lambda>u' hs. Inr resp),
       session_post = (\<lambda>u' hs. Inr resp),
       open_wb = (\<lambda>p. None),
       utcnow = ''2024-01-01T00:00:00+00:00'' \<rparr>"

text \<open>A session whose requests raise \<^verbatim>\<open>aiohttp.ClientError\<close>.\<close>

definition FailingSession :: attempt_env where
  "FailingSession =
     \<lparr> session_get = (\<lambda>u' hs. Inl (OtherException ''Simulated network error'')),
       session_post = (\<lambda>u' hs. Inl (OtherException ''Simulated network error'')),
       open_wb = (\<lambda>p. None),
       utcnow = ''2024-01-01T00:00:00+00:00'' \<rparr>"

text \<open>A world whose first attempt meets the failing session and whose later ones the fake.\<close>

definition flaky_world :: "response \<Rightarrow> nat \<Rightarrow> attempt_env" where
  "flaky_world resp n = (if n < 2 then FailingSession else FakeSession resp)"

text \<open>
  An instance of the libraries that is small enough to run: its codecs put the two
  magic bytes of the format before the data and raise on data that does not start with
  them, its digest prints the bytes in hexadecimal instead of hashing them, and its
  paths are already in normal form.
\<close>

definition unframe :: "8 word \<Rightarrow> 8 word \<Rightarrow> string \<Rightarrow> bytes \<Rightarrow> exn + bytes" where
  "unframe m1 m2 complaint data =
     (case data of
        x # y # rest \<Rightarrow> if x = m1 \<and> y = m2 then Inr rest else Inl (OtherException complaint)
      | _ \<Rightarrow> Inl (OtherException complaint))"

definition hex_digit :: "nat \<Rightarrow> char" where
  "hex_digit d = ''0123456789abcdef'' ! d"

definition hex_of :: "bytes \<Rightarrow> string" where
  "hex_of data = concat (map (\<lambda>w. [hex_digit (unat w div 16), hex_digit (unat w mod 16)]) data)"

definition small_libs :: libs where
  "small_libs =
     \<lparr> gzip_compress = (\<lambda>data. [0x1f, 0x8b] @ data),
       gzip_decompress = unframe 0x1f 0x8b ''Not a gzipped file'',
       zlib_compress = (\<lambda>data. [0x78, 0x9c] @ data),
       zlib_decompress = unframe 0x78 0x9c ''Error -3 while decompressing data'',
       sha256_hex = hex_of,
       path_str = (\<lambda>s. s) \<rparr>"

text \<open>
  The response that the session of \<^verbatim>\<open>_ensure_session\<close> hands over.
  \<^verbatim>\<open>aiohttp.ClientSession(timeout=timeout)\<close> leaves \<^verbatim>\<open>auto_decompress\<close> at its default,
  so the client itself decodes a body that was sent under the content encoding
  \<^verbatim>\<open>gzip\<close> or \<^verbatim>\<open>deflate\<close> before \<^verbatim>\<open>read\<close> and \<^verbatim>\<open>iter_chunked\<close> deliver it, and
  both raise when the body does not decode. The chunks are slices of what is delivered.
\<close>

definition client_decoded :: "libs \<Rightarrow> headers \<Rightarrow> bytes \<Rightarrow> exn + bytes" where
  "client_decoded L headers' wire =
     (let enc = lower (headers_get_default headers' ''Content-Encoding'' []) in
      if enc = ''gzip'' then gzip_decompress L wire
      else if enc = ''deflate'' then zlib_decompress L wire
      else Inr wire)"

definition ClientResponse ::
  "libs \<Rightarrow> string \<Rightarrow> headers \<Rightarrow> int \<Rightarrow> bytes \<Rightarrow> string option \<Rightarrow> response"
where
  "ClientResponse L url' headers' status wire encoding =
     \<lparr> resp_url = url',
       resp_status = status,
       resp_headers = headers',
       resp_wire_body = wire,
       resp_read = client_decoded L headers' wire,
       resp_iter_chunked =
         (\<lambda>n. case client_decoded L headers' wire of
                Inl e \<Rightarrow> ([], Some e)
              | Inr body \<Rightarrow> (sliced body n, None)),
       resp_get_encoding = Inr encoding \<rparr>"

text \<open>A world in which every attempt meets the fake session with the same response.\<close>

definition steady_world :: "response \<Rightarrow> nat \<Rightarrow> attempt_env" where
  "steady_world resp n = FakeSession resp"

text \<open>
  Two responses and the resources that fetching them returns: a page whose body is
  framed as gzip under the header value \<^verbatim>\<open>GZIP\<close>, fetched into memory, and a
  blob that arrives in chunks of four bytes, streamed to \<^verbatim>\<open>out.bin\<close>.
\<close>

definition gzipped_page :: response where
  "gzipped_page =
     DummyResp ''http://example.com/''
       [(''Content-Type'', ''text/html; charset=utf-8''), (''Content-Encoding'', ''GZIP'')]
       200 [0x1f, 0x8b, 0x68, 0x69] ''utf-8''"

definition gzipped_page_resource :: resource where
  "gzipped_page_resource =
     \<lparr> url = ''http://example.com'',
       redirected_url = Some ''http://example.com/'',
       content = Some [0x68, 0x69],
       hash = Some ''6869'',
       metadata = Some
         \<lparr> md_headers = [(''Content-Type'', ''text/html; charset=utf-8''), (''Content-Encoding'', ''GZIP'')],
           md_status_code = 200,
           md_content_type = ''text/html; charset=utf-8'',
           md_mime = Some ''text/html'',
           md_encoding = Some ''utf-8'',
           md_etag = None,
           md_last_modified = None,
           md_content_encoding = ''gzip'',
           md_fetched_at = ''2024-01-01T00:00:00+00:00'' \<rparr>,
       fetched_at = Some ''2024-01-01T00:00:00+00:00'',
       file_path = None \<rparr>"



text \<open>
  A body framed as gzip and sent under \<^verbatim>\<open>Content-Encoding: gzip\<close>, as the client of
  the session hands it over, and the resource that streaming it to \<^verbatim>\<open>out.bin\<close> returns.
\<close>

definition gzip_download :: response where
  "gzip_download =
     ClientResponse small_libs ''http://example.com/blob''
       [(''Content-Type'', ''text/plain; charset=utf-8''), (''Content-Encoding'', ''gzip'')]
       200 [0x1f, 0x8b, 0x68, 0x69] (Some ''utf-8'')"

definition gzip_download_resource :: resource where
  "gzip_download_resource =
     \<lparr> url = ''http://example.com/blob'',
       redirected_url = Some ''http://example.com/blob'',
       content = None,
       hash = Some ''6869'',
       metadata = Some
         \<lparr> md_headers = [(''Content-Type'', ''text/plain; charset=utf-8''), (''Content-Encoding'', ''gzip'')],
           md_status_code = 200,
           md_content_type = ''text/plain; charset=utf-8'',
           md_mime = Some ''text/plain'',
           md_encoding = Some ''utf-8'',
           md_etag = None,
           md_last_modified = None,
           md_content_encoding = ''gzip'',
           md_fetched_at = ''2024-01-01T00:00:00+00:00'' \<rparr>,
       fetched_at = Some ''2024-01-01T00:00:00+00:00'',
       file_path = Some ''out.bin'' \<rparr>"

section \<open>Properties of the retry loop\<close>

lemma attempts_append: "attempts (xs @ ys) = attempts xs + attempts ys"
  by (induction xs rule: attempts.induct) simp_all

lemma sleeps_append: "sleeps (xs @ ys) = sleeps xs @ sleeps ys"
  by (induction xs rule: sleeps.induct) simp_all

lemma failed_rounds_0: "failed_rounds once a 0 = []"
  by (simp add: failed_rounds_def)

lemma failed_rounds_Suc:
  "failed_rounds once a (Suc k) =
     [Attempt (Suc a) (snd (once (Suc a))), Sleep (delay_base * 2 ^ Suc a)] @ failed_rounds once (Suc a) k"
  by (simp add: failed_rounds_def upt_conv_Cons del: upt_Suc)

lemma attempts_failed_rounds: "attempts (failed_rounds once a k) = k"
  by (induction k arbitrary: a) (simp_all add: failed_rounds_0 failed_rounds_Suc)

lemma sleeps_failed_rounds:
  "sleeps (failed_rounds once a k) = map (\<lambda>n. delay_base * 2 ^ n) [Suc a..<Suc (a + k)]"
proof (induction k arbitrary: a)
  case 0
  show ?case by (simp add: failed_rounds_0)
next
  case (Suc k)
  have "[Suc a..<Suc (a + Suc k)] = Suc a # [Suc (Suc a)..<Suc (Suc a + k)]"
    by (simp add: upt_conv_Cons del: upt_Suc)
  then show ?case
    by (simp add: failed_rounds_Suc Suc.IH del: upt_Suc)
qed

lemma fails_retriablyE:
  assumes "fails_retriably x"
  obtains e evs where "x = (Inl (OtherException e), evs)"
  using assms by (cases x rule: fails_retriably.cases) simp_all

lemma retry_loop_retry:
  assumes "fails_retriably (once (Suc a))" and "int (Suc a) \<noteq> retries"
  shows "retry_loop once retries u a tr =
         retry_loop once retries u (Suc a)
           (tr @ [Attempt (Suc a) (snd (once (Suc a))), Sleep (delay_base * 2 ^ Suc a)])"
proof -
  from assms(1) obtain e evs where "once (Suc a) = (Inl (OtherException e), evs)"
    by (rule fails_retriablyE)
  with assms(2) show ?thesis
    by (subst retry_loop.simps) simp
qed

lemma retry_loop_rounds:
  assumes "\<forall>n. a < n \<and> n \<le> a + k \<longrightarrow> fails_retriably (once n) \<and> int n \<noteq> retries"
  shows "retry_loop once retries u a tr =
         retry_loop once retries u (a + k) (tr @ failed_rounds once a k)"
  using assms
proof (induction k arbitrary: a tr)
  case 0
  show ?case by (simp add: failed_rounds_0)
next
  case (Suc k)
  have first: "fails_retriably (once (Suc a))" "int (Suc a) \<noteq> retries"
    using Suc.prems by auto
  have rest: "\<forall>n. Suc a < n \<and> n \<le> Suc a + k \<longrightarrow> fails_retriably (once n) \<and> int n \<noteq> retries"
    using Suc.prems by auto
  have "retry_loop once retries u a tr =
        retry_loop once retries u (Suc a)
          (tr @ [Attempt (Suc a) (snd (once (Suc a))), Sleep (delay_base * 2 ^ Suc a)])"
    using first by (rule retry_loop_retry)
  also have "\<dots> = retry_loop once retries u (Suc a + k)
          ((tr @ [Attempt (Suc a) (snd (once (Suc a))), Sleep (delay_base * 2 ^ Suc a)])
            @ failed_rounds once (Suc a) k)"
    using rest by (rule Suc.IH)
  finally show ?case
    by (simp add: failed_rounds_Suc)
qed

lemma retry_loop_success:
  assumes "fst (once (Suc a)) = Inr r"
  shows "retry_loop once retries u a tr =
         Some (Inr r, tr @ [Attempt (Suc a) (snd (once (Suc a)))])"
  using assms by (subst retry_loop.simps) (cases "once (Suc a)", simp)

lemma retry_loop_value_error:
  assumes "fst (once (Suc a)) = Inl (ValueError ve)"
  shows "retry_loop once retries u a tr =
         Some (Inl (FetchError u ve), tr @ [Attempt (Suc a) (snd (once (Suc a)))])"
  using assms by (subst retry_loop.simps) (cases "once (Suc a)", simp)

lemma retry_loop_exhausted:
  assumes "fst (once (Suc a)) = Inl (OtherException e)" and "int (Suc a) = retries"
  shows "retry_loop once retries u a tr =
         Some (Inl (FetchError u e), tr @ [Attempt (Suc a) (snd (once (Suc a)))])"
  using assms by (subst retry_loop.simps) (cases "once (Suc a)", simp)

lemma run_shape_step:
  assumes fr: "fails_retriably (once (Suc a))" and ne: "int (Suc a) \<noteq> retries"
    and k: "run_shape once retries u (Suc a)
              (tr @ [Attempt (Suc a) (snd (once (Suc a))), Sleep (delay_base * 2 ^ Suc a)]) k y"
  shows "run_shape once retries u a tr (Suc k) y"
proof -
  have "\<forall>n. a < n \<and> n \<le> a + Suc k \<longrightarrow> fails_retriably (once n) \<and> int n \<noteq> retries"
  proof (intro allI impI)
    fix n assume n: "a < n \<and> n \<le> a + Suc k"
    show "fails_retriably (once n) \<and> int n \<noteq> retries"
    proof (cases "n = Suc a")
      case True with fr ne show ?thesis by simp
    next
      case False
      with n have "Suc a < n \<and> n \<le> Suc a + k" by simp
      with k show ?thesis unfolding run_shape_def by blast
    qed
  qed
  with k show ?thesis
    by (simp add: run_shape_def failed_rounds_Suc)
qed

lemma retry_loop_SomeD:
  assumes "retry_loop once retries u a tr = Some y"
  shows "\<exists>k. run_shape once retries u a tr k y"
proof (rule retry_loop.raw_induct [OF _ assms])
  fix f :: "(nat \<Rightarrow> (exn + 'r) \<times> 'io list) \<Rightarrow> int \<Rightarrow> string \<Rightarrow> nat \<Rightarrow> 'io step list
            \<Rightarrow> ((fetch_error + 'r) \<times> 'io step list) option"
  fix once retries u a tr y
  assume IH: "\<And>once retries u a tr y. f once retries u a tr = Some y
                \<Longrightarrow> \<exists>k. run_shape once retries u a tr k y"
  assume body: "(let attempt = a + 1 in
      case once attempt of
        (Inr r, evs) \<Rightarrow> Some (Inr r, tr @ [Attempt attempt evs])
      | (Inl (ValueError ve), evs) \<Rightarrow>
          Some (Inl (FetchError u ve), tr @ [Attempt attempt evs])
      | (Inl (OtherException e), evs) \<Rightarrow>
          if int attempt = retries
          then Some (Inl (FetchError u e), tr @ [Attempt attempt evs])
          else f once retries u attempt
                 (tr @ [Attempt attempt evs, Sleep (delay_base * 2 ^ attempt)])) = Some y"
  obtain x evs where o: "once (Suc a) = (x, evs)" by (cases "once (Suc a)")
  show "\<exists>k. run_shape once retries u a tr k y"
  proof (cases x)
    case (Inr r)
    with body o have "y = (Inr r, tr @ [Attempt (Suc a) evs])" by simp
    with o Inr have "run_shape once retries u a tr 0 y"
      by (simp add: run_shape_def surfaced_def failed_rounds_0)
    then show ?thesis ..
  next
    case (Inl ex)
    show ?thesis
    proof (cases ex)
      case (ValueError ve)
      with body o Inl have "y = (Inl (FetchError u ve), tr @ [Attempt (Suc a) evs])" by simp
      with o Inl ValueError have "run_shape once retries u a tr 0 y"
        by (simp add: run_shape_def surfaced_def failed_rounds_0)
      then show ?thesis ..
    next
      case (OtherException e)
      show ?thesis
      proof (cases "int (Suc a) = retries")
        case True
        with body o Inl OtherException
        have "y = (Inl (FetchError u e), tr @ [Attempt (Suc a) evs])" by simp
        with o Inl OtherException True have "run_shape once retries u a tr 0 y"
          by (simp add: run_shape_def surfaced_def failed_rounds_0)
        then show ?thesis ..
      next
        case False
        with body o Inl OtherException
        have "f once retries u (Suc a) (tr @ [Attempt (Suc a) evs, Sleep (delay_base * 2 ^ Suc a)]) = Some y"
          by simp
        from IH [OF this] obtain k where
          "run_shape once retries u (Suc a) (tr @ [Attempt (Suc a) evs, Sleep (delay_base * 2 ^ Suc a)]) k y" ..
        then have k: "run_shape once retries u (Suc a)
            (tr @ [Attempt (Suc a) (snd (once (Suc a))), Sleep (delay_base * 2 ^ Suc a)]) k y"
          using o by simp
        have fr: "fails_retriably (once (Suc a))" using o Inl OtherException by simp
        from fr False k have "run_shape once retries u a tr (Suc k) y"
          by (rule run_shape_step)
        then show ?thesis ..
      qed
    qed
  qed
qed

lemma retry_loop_run:
  assumes "run_shape once retries u a tr k y"
  shows "retry_loop once retries u a tr = Some y"
proof -
  from assms have rounds: "\<forall>n. a < n \<and> n \<le> a + k \<longrightarrow> fails_retriably (once n) \<and> int n \<noteq> retries"
    and last: "fails_retriably (once (Suc (a + k))) \<longrightarrow> int (Suc (a + k)) = retries"
    and y: "y = (surfaced u (fst (once (Suc (a + k)))),
          tr @ failed_rounds once a k @ [Attempt (Suc (a + k)) (snd (once (Suc (a + k))))])"
    unfolding run_shape_def by blast+
  have "retry_loop once retries u a tr = retry_loop once retries u (a + k) (tr @ failed_rounds once a k)"
    using rounds by (rule retry_loop_rounds)
  also have "\<dots> = Some y"
  proof (cases "fst (once (Suc (a + k)))")
    case (Inr r)
    then show ?thesis unfolding y by (simp add: retry_loop_success surfaced_def)
  next
    case (Inl ex)
    show ?thesis
    proof (cases ex)
      case (ValueError ve)
      with Inl show ?thesis unfolding y by (simp add: retry_loop_value_error surfaced_def)
    next
      case (OtherException e)
      with Inl have "fails_retriably (once (Suc (a + k)))"
        by (cases "once (Suc (a + k))") simp
      with last have "int (Suc (a + k)) = retries" by simp
      with Inl OtherException show ?thesis unfolding y
        by (simp add: retry_loop_exhausted surfaced_def)
    qed
  qed
  finally show ?thesis .
qed

section \<open>Claims about the retry loop\<close>

text \<open>
  C1. With a positive ceiling \<open>N\<close> on the attempts: when the single attempt fails
  retriably \<open>k\<close> times and then succeeds, and \<open>k < N\<close>, the fetch returns the resource of
  that success after exactly \<open>k + 1\<close> attempts; when the attempts up to the \<open>N\<close>-th all
  fail retriably, the fetch raises \<^verbatim>\<open>FetchError\<close> after exactly \<open>N\<close> attempts.
\<close>

theorem retry_attempt_count:
  assumes "0 < N"
  shows "(k < nat N \<and> (\<forall>n. 1 \<le> n \<and> n \<le> k \<longrightarrow> fails_retriably (once n)) \<and> fst (once (Suc k)) = Inr r
            \<longrightarrow> (\<exists>tr. fetch_with_retries_from once N u = Some (Inr r, tr) \<and> attempts tr = Suc k))
       \<and> ((\<forall>n. 1 \<le> n \<and> n \<le> nat N \<longrightarrow> fails_retriably (once n))
            \<longrightarrow> (\<exists>msg tr. fetch_with_retries_from once N u = Some (Inl (FetchError u msg), tr)
                    \<and> attempts tr = nat N))"
proof (intro conjI impI)
  assume h: "k < nat N \<and> (\<forall>n. 1 \<le> n \<and> n \<le> k \<longrightarrow> fails_retriably (once n)) \<and> fst (once (Suc k)) = Inr r"
  let ?tr = "failed_rounds once 0 k @ [Attempt (Suc k) (snd (once (Suc k)))]"
  have last: "\<not> fails_retriably (once (Suc k))"
    using h by (cases "once (Suc k)") simp
  have "run_shape once N u 0 [] k (Inr r, ?tr)"
    unfolding run_shape_def using h last by (auto simp: surfaced_def)
  then have "fetch_with_retries_from once N u = Some (Inr r, ?tr)"
    unfolding fetch_with_retries_from_def by (rule retry_loop_run)
  moreover have "attempts ?tr = Suc k"
    by (simp add: attempts_append attempts_failed_rounds)
  ultimately show "\<exists>tr. fetch_with_retries_from once N u = Some (Inr r, tr) \<and> attempts tr = Suc k"
    by blast
next
  assume h: "\<forall>n. 1 \<le> n \<and> n \<le> nat N \<longrightarrow> fails_retriably (once n)"
  obtain j where j: "nat N = Suc j" using assms by (cases "nat N") auto
  let ?tr = "failed_rounds once 0 j @ [Attempt (Suc j) (snd (once (Suc j)))]"
  from h j have "fails_retriably (once (Suc j))" by simp
  then obtain msg evs where o: "once (Suc j) = (Inl (OtherException msg), evs)"
    by (rule fails_retriablyE)
  have N: "int (Suc j) = N" using j assms by linarith
  have "run_shape once N u 0 [] j (Inl (FetchError u msg), ?tr)"
    unfolding run_shape_def using h j o N by (auto simp: surfaced_def)
  then have "fetch_with_retries_from once N u = Some (Inl (FetchError u msg), ?tr)"
    unfolding fetch_with_retries_from_def by (rule retry_loop_run)
  moreover have "attempts ?tr = nat N"
    by (simp add: attempts_append attempts_failed_rounds j)
  ultimately show "\<exists>msg tr. fetch_with_retries_from once N u = Some (Inl (FetchError u msg), tr)
                    \<and> attempts tr = nat N"
    by blast
qed

theorem retry_attempt_count_witness:
  "(\<exists>tr. fetch_with_retries_from (mock_fetch_once 2) 3 ''http://example.com''
            = Some (Inr ''Recovered content'', tr) \<and> attempts tr = 2)
   \<and> (\<exists>msg tr. fetch_with_retries_from (mock_fetch_once 3) 1 ''http://example.com''
            = Some (Inl (FetchError ''http://example.com'' msg), tr) \<and> attempts tr = 1)"
proof -
  have a: "\<exists>tr. fetch_with_retries_from (mock_fetch_once 2) 3 ''http://example.com''
            = Some (Inr ''Recovered content'', tr) \<and> attempts tr = 2"
    using retry_attempt_count [where N = 3 and k = 1 and once = "mock_fetch_once 2"
          and r = "''Recovered content''" and u = "''http://example.com''"]
    by (simp add: mock_fetch_once_def eval_nat_numeral)
  have b: "\<exists>msg tr. fetch_with_retries_from (mock_fetch_once 3) 1 ''http://example.com''
            = Some (Inl (FetchError ''http://example.com'' msg), tr) \<and> attempts tr = 1"
    using retry_attempt_count [where N = 1 and k = 0 and once = "mock_fetch_once 3"
          and r = "''Recovered content''" and u = "''http://example.com''"]
    by (simp add: mock_fetch_once_def)
  from a b show ?thesis ..
qed

text \<open>
  C2. When the attempts \<open>1\<close> to \<open>k\<close> fail retriably without reaching the ceiling and the
  run ends with attempt \<open>k + 1\<close>, every failed attempt \<open>n\<close> is followed by a sleep of
  \<open>base * 2 ^ n\<close> seconds, with \<open>base = 1\<close>, and then by attempt \<open>n + 1\<close>: the sleeps of
  the run are 2, 4, 8 and so on, up to \<open>2 ^ k\<close>.
\<close>

theorem backoff_schedule:
  assumes "\<forall>n. 1 \<le> n \<and> n \<le> k \<longrightarrow> fails_retriably (once n) \<and> int n \<noteq> retries"
    and "fails_retriably (once (Suc k)) \<longrightarrow> int (Suc k) = retries"
  shows "\<exists>res tr. fetch_with_retries_from once retries u = Some (res, tr)
          \<and> tr = concat (map (\<lambda>n. [Attempt n (snd (once n)), Sleep (2 ^ n)]) [1..<Suc k])
                 @ [Attempt (Suc k) (snd (once (Suc k)))]
          \<and> sleeps tr = map (\<lambda>n. 2 ^ n) [1..<Suc k]
          \<and> delay_base = 1"
proof -
  let ?tr = "failed_rounds once 0 k @ [Attempt (Suc k) (snd (once (Suc k)))]"
  have "run_shape once retries u 0 [] k (surfaced u (fst (once (Suc k))), ?tr)"
    unfolding run_shape_def using assms by auto
  then have "fetch_with_retries_from once retries u = Some (surfaced u (fst (once (Suc k))), ?tr)"
    unfolding fetch_with_retries_from_def by (rule retry_loop_run)
  moreover have "?tr = concat (map (\<lambda>n. [Attempt n (snd (once n)), Sleep (2 ^ n)]) [1..<Suc k])
                 @ [Attempt (Suc k) (snd (once (Suc k)))]"
    by (simp add: failed_rounds_def delay_base_def)
  moreover have "sleeps ?tr = map (\<lambda>n. 2 ^ n) [1..<Suc k]"
    by (simp add: sleeps_append sleeps_failed_rounds delay_base_def)
  ultimately show ?thesis
    by (simp add: delay_base_def)
qed

theorem backoff_schedule_witness:
  "\<exists>res. fetch_with_retries_from (mock_fetch_once 3) 5 ''http://example.com''
     = Some (res, [Attempt 1 [], Sleep 2, Attempt 2 [], Sleep 4, Attempt 3 []])"
  using backoff_schedule [where k = 2 and once = "mock_fetch_once 3" and retries = 5
          and u = "''http://example.com''"]
  by (simp add: mock_fetch_once_def upt_conv_Cons delay_base_def eval_nat_numeral)

text \<open>
  C3. For a method other than \<^verbatim>\<open>GET\<close> and \<^verbatim>\<open>POST\<close>, whatever the ceiling, the
  fetch raises \<^verbatim>\<open>FetchError\<close> after one attempt that issued no request and had no
  other effect, and there is no sleep and no second attempt.
\<close>

theorem unsupported_method_fails_at_once:
  assumes "method \<noteq> ''GET''" and "method \<noteq> ''POST''"
  shows "fetch_with_retries L world retries u method stream_to headers0 =
           Some (Inl (FetchError u (''Unsupported HTTP method: '' @ method)), [Attempt 1 []])"
proof -
  have "fst (fetch_once L (world (Suc 0)) u method stream_to headers0) =
          Inl (ValueError (''Unsupported HTTP method: '' @ method))"
    and "snd (fetch_once L (world (Suc 0)) u method stream_to headers0) = []"
    using assms by (simp_all add: fetch_once_def)
  then show ?thesis
    unfolding fetch_with_retries_def fetch_with_retries_from_def
    by (simp add: retry_loop_value_error)
qed

theorem unsupported_method_fails_at_once_witness:
  "fetch_with_retries small_libs (\<lambda>n. FailingSession) 3 ''http://example.com'' ''PUT'' None None =
     Some (Inl (FetchError ''http://example.com'' ''Unsupported HTTP method: PUT''), [Attempt 1 []])"
  using unsupported_method_fails_at_once
          [of "''PUT''" small_libs "\<lambda>n. FailingSession" 3 "''http://example.com''" None None]
  by simp

section \<open>Claims about the decompressor\<close>

text \<open>
  C7. For the labels \<^verbatim>\<open>gzip\<close> and \<^verbatim>\<open>deflate\<close>, decompressing the encoding of a byte
  sequence under the same label, not chunked, returns the byte sequence. The codecs are
  the libraries'; what is used of them is that each decoder inverts its encoder.
\<close>

theorem decompress_round_trip:
  assumes "\<forall>b. gzip_decompress L (gzip_compress L b) = Inr b"
    and "\<forall>b. zlib_decompress L (zlib_compress L b) = Inr b"
    and "E = ''gzip'' \<or> E = ''deflate''"
  shows "decompress L (encode L E data) E False = Inr data"
  using assms by (auto simp: decompress_def decompress_try_def encode_def)

theorem decompress_round_trip_witness:
  "decompress small_libs (encode small_libs ''gzip'' [0x68, 0x69]) ''gzip'' False = Inr [0x68, 0x69]
   \<and> encode small_libs ''gzip'' [0x68, 0x69] = [0x1f, 0x8b, 0x68, 0x69]
   \<and> decompress small_libs (encode small_libs ''deflate'' [0x68, 0x69]) ''deflate'' False = Inr [0x68, 0x69]
   \<and> encode small_libs ''deflate'' [0x68, 0x69] = [0x78, 0x9c, 0x68, 0x69]"
proof -
  have g: "\<forall>b. gzip_decompress small_libs (gzip_compress small_libs b) = Inr b"
    by (simp add: small_libs_def unframe_def)
  have z: "\<forall>b. zlib_decompress small_libs (zlib_compress small_libs b) = Inr b"
    by (simp add: small_libs_def unframe_def)
  have "decompress small_libs (encode small_libs ''gzip'' [0x68, 0x69]) ''gzip'' False = Inr [0x68, 0x69]"
    using g z by (rule decompress_round_trip) simp
  moreover
  have "decompress small_libs (encode small_libs ''deflate'' [0x68, 0x69]) ''deflate'' False = Inr [0x68, 0x69]"
    using g z by (rule decompress_round_trip) simp
  ultimately show ?thesis
    by (simp add: encode_def small_libs_def)
qed

text \<open>
  C8. \<^verbatim>\<open>decompress\<close> always returns, and returns its input unchanged for every label
  other than \<^verbatim>\<open>gzip\<close> and \<^verbatim>\<open>deflate\<close>, for every chunked input, and for every input
  on which the decoder of a known label raises.
\<close>

theorem decompress_never_raises:
  "(\<exists>out. decompress L data encoding is_chunked = Inr out)
   \<and> (encoding \<noteq> ''gzip'' \<and> encoding \<noteq> ''deflate'' \<longrightarrow>
        decompress L data encoding is_chunked = Inr data)
   \<and> decompress L data encoding True = Inr data
   \<and> (encoding = ''gzip'' \<and> gzip_decompress L data = Inl e \<longrightarrow>
        decompress L data encoding False = Inr data)
   \<and> (encoding = ''deflate'' \<and> zlib_decompress L data = Inl e \<longrightarrow>
        decompress L data encoding False = Inr data)"
  by (auto simp: decompress_def decompress_try_def split: sum.splits)

theorem decompress_never_raises_witness:
  "decompress small_libs [0x6e, 0x6f] ''br'' False = Inr [0x6e, 0x6f]
   \<and> decompress small_libs [0x6e, 0x6f] '''' False = Inr [0x6e, 0x6f]
   \<and> decompress small_libs [0x1f, 0x8b, 0x68, 0x69] ''gzip'' True = Inr [0x1f, 0x8b, 0x68, 0x69]
   \<and> gzip_decompress small_libs [0x6e, 0x6f] = Inl (OtherException ''Not a gzipped file'')
   \<and> decompress small_libs [0x6e, 0x6f] ''gzip'' False = Inr [0x6e, 0x6f]
   \<and> zlib_decompress small_libs [0x78] = Inl (OtherException ''Error -3 while decompressing data'')
   \<and> decompress small_libs [0x78] ''deflate'' False = Inr [0x78]"
proof -
  have g: "gzip_decompress small_libs [0x6e, 0x6f] = Inl (OtherException ''Not a gzipped file'')"
    by (simp add: small_libs_def unframe_def)
  have z: "zlib_decompress small_libs [0x78] = Inl (OtherException ''Error -3 while decompressing data'')"
    by (simp add: small_libs_def unframe_def)
  show ?thesis
    using decompress_never_raises [of small_libs "[0x6e, 0x6f]" "''br''" False]
      decompress_never_raises [of small_libs "[0x6e, 0x6f]" "''''" False]
      decompress_never_raises [of small_libs "[0x1f, 0x8b, 0x68, 0x69]" "''gzip''" False]
      decompress_never_raises [of small_libs "[0x6e, 0x6f]" "''gzip''" False "OtherException ''Not a gzipped file''"]
      decompress_never_raises [of small_libs "[0x78]" "''deflate''" False "OtherException ''Error -3 while decompressing data''"]
      g z
    by simp
qed

section \<open>Properties of one attempt\<close>

lemma stream_chunks_eq:
  "stream_chunks p chunks h =
     (h @ concat chunks, concat (map (\<lambda>c. [Next_chunk c, Hash_update c, File_write p c]) chunks))"
  by (induction chunks arbitrary: h) (simp_all add: sha256_update_def)






lemma decompress_returns: "\<exists>out. decompress L data encoding is_chunked = Inr out"
  by (simp add: decompress_def split: sum.splits)

lemma from_response_buffered:
  assumes "\<not> truthy stream_to" and "from_response L env u resp t stream_to = (Inr r, evs)"
  shows "\<exists>raw out. resp_read resp = Inr raw
           \<and> decompress L raw (lower (headers_get_default (resp_headers resp) ''Content-Encoding'' [])) False = Inr out
           \<and> content r = Some out \<and> hash r = Some (sha256_hex L out) \<and> file_path r = None
           \<and> evs = [Resp_read, Hash_update out]"
  using assms
  by (auto simp: from_response_def materialize_def read_and_decompress_def Let_def
        sha256_update_def sha256_new_def hexdigest_def
      split: sum.splits prod.splits)

lemma from_response_streamed:
  assumes "truthy stream_to" and "from_response L env u resp t stream_to = (Inr r, evs)"
  shows "\<exists>chunks. resp_iter_chunked resp CHUNK_SIZE = (chunks, None)
           \<and> content r = None \<and> file_path r = Some (path_str L (the stream_to))
           \<and> hash r = Some (sha256_hex L (concat chunks))
           \<and> evs = Open_wb (path_str L (the stream_to))
                   # concat (map (\<lambda>c. [Next_chunk c, Hash_update c, File_write (path_str L (the stream_to)) c]) chunks)
                   @ [File_close (path_str L (the stream_to))]"
  using assms
  by (auto simp: from_response_def materialize_def stream_and_hash_def Let_def stream_chunks_eq
        sha256_new_def hexdigest_def
      split: sum.splits prod.splits option.splits)

lemma from_response_buffered_returns:
  assumes "\<not> truthy stream_to" and "resp_read resp = Inr raw" and "resp_get_encoding resp = Inr enc"
  shows "\<exists>r out. from_response L env u resp t stream_to = (Inr r, [Resp_read, Hash_update out])
           \<and> decompress L raw (lower (headers_get_default (resp_headers resp) ''Content-Encoding'' [])) False = Inr out
           \<and> content r = Some out \<and> hash r = Some (sha256_hex L out) \<and> file_path r = None"
proof -
  obtain out where
    "decompress L raw (lower (headers_get_default (resp_headers resp) ''Content-Encoding'' [])) False = Inr out"
    using decompress_returns by blast
  with assms show ?thesis
    by (simp add: from_response_def materialize_def read_and_decompress_def extract_metadata_def
          Let_def sha256_update_def sha256_new_def hexdigest_def)
qed

lemma from_response_streamed_returns:
  assumes "stream_to = Some target" and "target \<noteq> []"
    and "open_wb env (path_str L target) = None"
    and "resp_iter_chunked resp CHUNK_SIZE = (chunks, None)"
    and "resp_get_encoding resp = Inr enc"
  shows "\<exists>r. from_response L env u resp t stream_to =
              (Inr r, Open_wb (path_str L target)
                 # concat (map (\<lambda>c. [Next_chunk c, Hash_update c, File_write (path_str L target) c]) chunks)
                 @ [File_close (path_str L target)])
           \<and> content r = None \<and> file_path r = Some (path_str L target)
           \<and> hash r = Some (sha256_hex L (concat chunks))"
proof -
  have "truthy stream_to" using assms(1,2) by (cases target) simp_all
  with assms show ?thesis
    by (simp add: from_response_def materialize_def stream_and_hash_def extract_metadata_def
          Let_def stream_chunks_eq sha256_new_def hexdigest_def)
qed


lemma fetch_once_success:
  assumes "fetch_once L env u method stream_to headers0 = (Inr r, evs)"
  shows "\<exists>resp evs'. from_response L env u resp (utcnow env) stream_to = (Inr r, evs')
           \<and> (method = ''GET'' \<and> session_get env u (headers_or_default headers0) = Inr resp
                \<and> evs = Session_get u (headers_or_default headers0) # evs'
              \<or> method = ''POST'' \<and> session_post env u (headers_or_default headers0) = Inr resp
                \<and> evs = Session_post u (headers_or_default headers0) # evs')"
  using assms
  by (auto simp: fetch_once_def Let_def split: if_splits sum.splits prod.splits)

lemma fetch_once_returns:
  assumes "method = ''GET'' \<or> method = ''POST''"
    and "(if method = ''GET'' then session_get env else session_post env)
            u (headers_or_default headers0) = Inr resp"
    and "from_response L env u resp (utcnow env) stream_to = (Inr r, evs)"
  shows "fetch_once L env u method stream_to headers0 =
           (Inr r, (if method = ''GET'' then Session_get u (headers_or_default headers0)
                    else Session_post u (headers_or_default headers0)) # evs)"
  using assms by (auto simp: fetch_once_def Let_def)

lemma surfaced_Inr: "surfaced u x = Inr r \<longleftrightarrow> x = Inr r"
  by (auto simp: surfaced_def split: sum.splits exn.splits)

lemma fetch_with_retries_success:
  assumes "fetch_with_retries L world retries u method stream_to headers0 = Some (Inr r, tr)"
  shows "\<exists>n pre evs. fetch_once L (world n) u method stream_to headers0 = (Inr r, evs)
           \<and> tr = pre @ [Attempt n evs]"
proof -
  let ?once = "\<lambda>n. fetch_once L (world n) u method stream_to headers0"
  from assms have "retry_loop ?once retries u 0 [] = Some (Inr r, tr)"
    by (simp add: fetch_with_retries_def fetch_with_retries_from_def)
  then obtain k where "run_shape ?once retries u 0 [] k (Inr r, tr)"
    by (blast dest: retry_loop_SomeD)
  then have "fst (?once (Suc k)) = Inr r"
    and "tr = failed_rounds ?once 0 k @ [Attempt (Suc k) (snd (?once (Suc k)))]"
    by (simp_all add: run_shape_def surfaced_Inr eq_commute [of "Inr r"])
  then show ?thesis
    by (metis prod.collapse)
qed

lemma fetch_with_retries_returns:
  assumes "\<forall>n. 1 \<le> n \<and> n \<le> k \<longrightarrow>
             fails_retriably (fetch_once L (world n) u method stream_to headers0) \<and> int n \<noteq> retries"
    and "fetch_once L (world (Suc k)) u method stream_to headers0 = (Inr r, evs)"
  shows "fetch_with_retries L world retries u method stream_to headers0 =
           Some (Inr r, failed_rounds (\<lambda>n. fetch_once L (world n) u method stream_to headers0) 0 k
                          @ [Attempt (Suc k) evs])"
proof -
  let ?once = "\<lambda>n. fetch_once L (world n) u method stream_to headers0"
  have "run_shape ?once retries u 0 [] k (Inr r, failed_rounds ?once 0 k @ [Attempt (Suc k) evs])"
    unfolding run_shape_def using assms by (auto simp: surfaced_def)
  then show ?thesis
    unfolding fetch_with_retries_def fetch_with_retries_from_def by (rule retry_loop_run)
qed




text \<open>The runs of the instances, computed by unfolding the definitions.\<close>

lemmas instance_defs =
  fetch_once_def from_response_def materialize_def read_and_decompress_def stream_and_hash_def
  extract_metadata_def decompress_def decompress_try_def small_libs_def unframe_def
  FakeSession_def FailingSession_def steady_world_def DummyResp_def TricklingResp_def
  ClientResponse_def client_decoded_def headers_get_default_def headers_get_def headers_dict_def
  lower_def lower_char_def upper_case_letters_def lower_case_letters_def
  split_semicolon_first_def sha256_new_def sha256_update_def hexdigest_def
  hex_of_def hex_digit_def CHUNK_SIZE_def sliced_def Let_def upt_conv_Cons

lemma gzipped_page_attempt:
  "fetch_once small_libs (FakeSession gzipped_page) ''http://example.com'' ''GET'' None None =
     (Inr gzipped_page_resource,
      [Session_get ''http://example.com'' DEFAULT_HEADERS, Resp_read, Hash_update [0x68, 0x69]])"
  by (simp add: instance_defs gzipped_page_def gzipped_page_resource_def)

lemma failing_attempt:
  "fetch_once small_libs FailingSession ''http://example.com'' ''GET'' None None =
     (Inl (OtherException ''Simulated network error''),
      [Session_get ''http://example.com'' DEFAULT_HEADERS])"
  by (simp add: fetch_once_def FailingSession_def)


lemma gzip_download_attempt:
  "fetch_once small_libs (FakeSession gzip_download) ''http://example.com/blob'' ''GET''
      (Some ''out.bin'') None =
     (Inr gzip_download_resource,
      [Session_get ''http://example.com/blob'' DEFAULT_HEADERS,
       Open_wb ''out.bin'',
       Next_chunk [0x68, 0x69], Hash_update [0x68, 0x69], File_write ''out.bin'' [0x68, 0x69],
       File_close ''out.bin''])"
  by (simp add: instance_defs gzip_download_def gzip_download_resource_def)

lemma buffered_run:
  "fetch_with_retries small_libs (flaky_world gzipped_page) 3 ''http://example.com'' ''GET'' None None =
     Some (Inr gzipped_page_resource,
       [Attempt 1 [Session_get ''http://example.com'' DEFAULT_HEADERS],
        Sleep 2,
        Attempt 2 [Session_get ''http://example.com'' DEFAULT_HEADERS, Resp_read, Hash_update [0x68, 0x69]]])"
  unfolding fetch_with_retries_def fetch_with_retries_from_def
  apply (subst retry_loop.simps)
  apply (simp add: flaky_world_def failing_attempt delay_base_def)
  apply (subst retry_loop.simps)
  apply (simp add: flaky_world_def gzipped_page_attempt)
  done


lemma gzip_download_run:
  "fetch_with_retries small_libs (steady_world gzip_download) 3 ''http://example.com/blob'' ''GET''
      (Some ''out.bin'') None =
     Some (Inr gzip_download_resource,
       [Attempt 1
         [Session_get ''http://example.com/blob'' DEFAULT_HEADERS,
          Open_wb ''out.bin'',
          Next_chunk [0x68, 0x69], Hash_update [0x68, 0x69], File_write ''out.bin'' [0x68, 0x69],
          File_close ''out.bin'']])"
  unfolding fetch_with_retries_def fetch_with_retries_from_def
  apply (subst retry_loop.simps)
  apply (simp add: steady_world_def gzip_download_attempt)
  done

section \<open>Claims about the materialized resource\<close>

text \<open>
  C4. A buffered fetch, one without a stream target, returns when an attempt gets a
  response whose body can be read and whose text encoding can be asked for, and every
  buffered fetch that returns has done so in this way: the content of the resource is
  the body that \<^verbatim>\<open>read\<close> returned, passed through \<^verbatim>\<open>decompress\<close> under the
  lower-cased value of the \<^verbatim>\<open>Content-Encoding\<close> header, and the hash is the SHA-256
  hex digest of exactly the bytes stored as the content.
\<close>

theorem buffered_hash_matches_content:
  "((\<forall>n. 1 \<le> n \<and> n \<le> k \<longrightarrow>
        fails_retriably (fetch_once L (world n) u method stream_to headers0) \<and> int n \<noteq> retries)
     \<and> (method = ''GET'' \<or> method = ''POST'')
     \<and> (if method = ''GET'' then session_get (world (Suc k)) else session_post (world (Suc k)))
          u (headers_or_default headers0) = Inr resp
     \<and> resp_read resp = Inr raw \<and> resp_get_encoding resp = Inr enc \<and> \<not> truthy stream_to
     \<longrightarrow> (\<exists>r tr out.
            fetch_with_retries L world retries u method stream_to headers0 = Some (Inr r, tr)
          \<and> decompress L raw
               (lower (headers_get_default (resp_headers resp) ''Content-Encoding'' [])) False = Inr out
          \<and> content r = Some out
          \<and> hash r = Some (sha256_hex L out)))
   \<and> (fetch_with_retries L world retries u method stream_to headers0 = Some (Inr r', tr')
       \<and> \<not> truthy stream_to
     \<longrightarrow> (\<exists>n resp' raw' out'.
            (if method = ''GET'' then session_get (world n) else session_post (world n))
               u (headers_or_default headers0) = Inr resp'
          \<and> resp_read resp' = Inr raw'
          \<and> decompress L raw'
               (lower (headers_get_default (resp_headers resp') ''Content-Encoding'' [])) False = Inr out'
          \<and> content r' = Some out'
          \<and> hash r' = Some (sha256_hex L out')))"
proof (intro conjI impI)
  assume h: "(\<forall>n. 1 \<le> n \<and> n \<le> k \<longrightarrow>
        fails_retriably (fetch_once L (world n) u method stream_to headers0) \<and> int n \<noteq> retries)
     \<and> (method = ''GET'' \<or> method = ''POST'')
     \<and> (if method = ''GET'' then session_get (world (Suc k)) else session_post (world (Suc k)))
          u (headers_or_default headers0) = Inr resp
     \<and> resp_read resp = Inr raw \<and> resp_get_encoding resp = Inr enc \<and> \<not> truthy stream_to"
  then have nt: "\<not> truthy stream_to" and rd: "resp_read resp = Inr raw"
    and ge: "resp_get_encoding resp = Inr enc" and m: "method = ''GET'' \<or> method = ''POST''"
    and ans: "(if method = ''GET'' then session_get (world (Suc k)) else session_post (world (Suc k)))
                u (headers_or_default headers0) = Inr resp"
    and rounds: "\<forall>n. 1 \<le> n \<and> n \<le> k \<longrightarrow>
        fails_retriably (fetch_once L (world n) u method stream_to headers0) \<and> int n \<noteq> retries"
    by blast+
  from from_response_buffered_returns [OF nt rd ge, of L "world (Suc k)" u "utcnow (world (Suc k))"]
  obtain r out where
    fr: "from_response L (world (Suc k)) u resp (utcnow (world (Suc k))) stream_to
           = (Inr r, [Resp_read, Hash_update out])"
    and out: "decompress L raw
               (lower (headers_get_default (resp_headers resp) ''Content-Encoding'' [])) False = Inr out"
    and r: "content r = Some out" "hash r = Some (sha256_hex L out)"
    by blast
  from fetch_with_retries_returns [OF rounds fetch_once_returns [OF m ans fr]] out r
  show "\<exists>r tr out.
            fetch_with_retries L world retries u method stream_to headers0 = Some (Inr r, tr)
          \<and> decompress L raw
               (lower (headers_get_default (resp_headers resp) ''Content-Encoding'' [])) False = Inr out
          \<and> content r = Some out
          \<and> hash r = Some (sha256_hex L out)"
    by blast
next
  assume h: "fetch_with_retries L world retries u method stream_to headers0 = Some (Inr r', tr')
       \<and> \<not> truthy stream_to"
  then obtain n evs where
    once: "fetch_once L (world n) u method stream_to headers0 = (Inr r', evs)"
    by (blast dest: fetch_with_retries_success)
  from fetch_once_success [OF once] obtain resp' evs' where
    fr: "from_response L (world n) u resp' (utcnow (world n)) stream_to = (Inr r', evs')"
    and req: "(if method = ''GET'' then session_get (world n) else session_post (world n))
                u (headers_or_default headers0) = Inr resp'"
    by auto
  from h have nt: "\<not> truthy stream_to" by simp
  from from_response_buffered [OF nt fr] req
  show "\<exists>n resp' raw' out'.
            (if method = ''GET'' then session_get (world n) else session_post (world n))
               u (headers_or_default headers0) = Inr resp'
          \<and> resp_read resp' = Inr raw'
          \<and> decompress L raw'
               (lower (headers_get_default (resp_headers resp') ''Content-Encoding'' [])) False = Inr out'
          \<and> content r' = Some out'
          \<and> hash r' = Some (sha256_hex L out')"
    by blast
qed

theorem buffered_hash_matches_content_witness:
  "fetch_with_retries small_libs (flaky_world gzipped_page) 3 ''http://example.com'' ''GET'' None None =
     Some (Inr gzipped_page_resource,
       [Attempt 1 [Session_get ''http://example.com'' DEFAULT_HEADERS],
        Sleep 2,
        Attempt 2 [Session_get ''http://example.com'' DEFAULT_HEADERS, Resp_read, Hash_update [0x68, 0x69]]])
   \<and> session_get (flaky_world gzipped_page 2) ''http://example.com'' DEFAULT_HEADERS = Inr gzipped_page
   \<and> resp_read gzipped_page = Inr [0x1f, 0x8b, 0x68, 0x69]
   \<and> lower (headers_get_default (resp_headers gzipped_page) ''Content-Encoding'' []) = ''gzip''
   \<and> decompress small_libs [0x1f, 0x8b, 0x68, 0x69] ''gzip'' False = Inr [0x68, 0x69]
   \<and> content gzipped_page_resource = Some [0x68, 0x69]
   \<and> hash gzipped_page_resource = Some (sha256_hex small_libs [0x68, 0x69])"
proof -
  have rounds: "\<forall>n. 1 \<le> n \<and> n \<le> 1 \<longrightarrow>
      fails_retriably (fetch_once small_libs (flaky_world gzipped_page n) ''http://example.com'' ''GET'' None None)
      \<and> int n \<noteq> 3"
    by (auto simp: flaky_world_def failing_attempt)
  have ans: "session_get (flaky_world gzipped_page (Suc 1)) ''http://example.com''
               (headers_or_default None) = Inr gzipped_page"
    by (simp add: flaky_world_def FakeSession_def)
  have rd: "resp_read gzipped_page = Inr [0x1f, 0x8b, 0x68, 0x69]"
    by (simp add: gzipped_page_def DummyResp_def)
  have ge: "resp_get_encoding gzipped_page = Inr (Some ''utf-8'')"
    by (simp add: gzipped_page_def DummyResp_def)
  have enc: "lower (headers_get_default (resp_headers gzipped_page) ''Content-Encoding'' []) = ''gzip''"
    by (simp add: instance_defs gzipped_page_def)
  have "\<exists>r tr out.
          fetch_with_retries small_libs (flaky_world gzipped_page) 3 ''http://example.com'' ''GET'' None None
            = Some (Inr r, tr)
        \<and> decompress small_libs [0x1f, 0x8b, 0x68, 0x69]
             (lower (headers_get_default (resp_headers gzipped_page) ''Content-Encoding'' [])) False = Inr out
        \<and> content r = Some out
        \<and> hash r = Some (sha256_hex small_libs out)"
    using buffered_hash_matches_content
            [of 1 small_libs "flaky_world gzipped_page" "''http://example.com''" "''GET''" None None 3
                gzipped_page "[0x1f, 0x8b, 0x68, 0x69]" "Some ''utf-8''"]
          rounds ans rd ge
    by simp
  moreover have "decompress small_libs [0x1f, 0x8b, 0x68, 0x69] ''gzip'' False = Inr [0x68, 0x69]"
    by (simp add: instance_defs)
  ultimately show ?thesis
    using buffered_run ans rd enc by (auto simp: flaky_world_def FakeSession_def)
qed



text \<open>
  C5 as it is stated fails where it says that the file holds the raw body of the
  response and that nothing is decompressed on the streaming path. The session that the
  fetcher builds decodes a gzip body itself: for a body sent as \<open>1f 8b 68 69\<close> under
  \<^verbatim>\<open>Content-Encoding: gzip\<close> the streaming fetch returns, and the file holds the decoded
  bytes \<open>68 69\<close>, which are not the bytes that were sent.
\<close>

theorem streamed_file_is_not_raw_body_counterexample:
  "fetch_with_retries small_libs (steady_world gzip_download) 3 ''http://example.com/blob'' ''GET''
      (Some ''out.bin'') None =
     Some (Inr gzip_download_resource,
       [Attempt 1
         [Session_get ''http://example.com/blob'' DEFAULT_HEADERS,
          Open_wb ''out.bin'',
          Next_chunk [0x68, 0x69], Hash_update [0x68, 0x69], File_write ''out.bin'' [0x68, 0x69],
          File_close ''out.bin'']])
   \<and> session_get (steady_world gzip_download 1) ''http://example.com/blob'' DEFAULT_HEADERS
        = Inr gzip_download
   \<and> resp_wire_body gzip_download = [0x1f, 0x8b, 0x68, 0x69]
   \<and> gzip_decompress small_libs (resp_wire_body gzip_download) = Inr [0x68, 0x69]
   \<and> file_after
        (run_io
          [Attempt 1
            [Session_get ''http://example.com/blob'' DEFAULT_HEADERS,
             Open_wb ''out.bin'',
             Next_chunk [0x68, 0x69], Hash_update [0x68, 0x69], File_write ''out.bin'' [0x68, 0x69],
             File_close ''out.bin'']]) ''out.bin'' None
       = Some [0x68, 0x69]
   \<and> Some [0x68, 0x69] \<noteq> Some (resp_wire_body gzip_download)"
  using gzip_download_run
  by (simp add: steady_world_def FakeSession_def gzip_download_def ClientResponse_def
        small_libs_def unframe_def)

text \<open>
  C6. A resource that a fetch returns has exactly one of its content and its file path
  set: the content and no path when the fetch had no stream target, the path and no
  content when it had one. Fetches of both kinds return.
\<close>

theorem exactly_one_of_content_and_path:
  "(fetch_with_retries L world retries u method stream_to headers0 = Some (Inr r, tr)
     \<longrightarrow> (content r \<noteq> None) \<noteq> (file_path r \<noteq> None)
        \<and> (if truthy stream_to then content r = None \<and> file_path r \<noteq> None
            else content r \<noteq> None \<and> file_path r = None))
   \<and> ((\<forall>n. 1 \<le> n \<and> n \<le> k \<longrightarrow>
          fails_retriably (fetch_once L (world n) u method stream_to headers0) \<and> int n \<noteq> retries)
       \<and> (method = ''GET'' \<or> method = ''POST'')
       \<and> (if method = ''GET'' then session_get (world (Suc k)) else session_post (world (Suc k)))
            u (headers_or_default headers0) = Inr resp
       \<and> resp_get_encoding resp = Inr enc
       \<and> (\<not> truthy stream_to \<and> resp_read resp = Inr raw
          \<or> stream_to = Some target \<and> target \<noteq> []
            \<and> open_wb (world (Suc k)) (path_str L target) = None
            \<and> resp_iter_chunked resp CHUNK_SIZE = (chunks, None))
     \<longrightarrow> (\<exists>r' tr'.
            fetch_with_retries L world retries u method stream_to headers0 = Some (Inr r', tr')
          \<and> (if truthy stream_to then content r' = None \<and> file_path r' = Some (path_str L target)
              else content r' \<noteq> None \<and> file_path r' = None)))"
proof (intro conjI impI)
  assume run: "fetch_with_retries L world retries u method stream_to headers0 = Some (Inr r, tr)"
  then obtain n evs where
    once: "fetch_once L (world n) u method stream_to headers0 = (Inr r, evs)"
    by (blast dest: fetch_with_retries_success)
  from fetch_once_success [OF once] obtain resp' evs' where
    fr: "from_response L (world n) u resp' (utcnow (world n)) stream_to = (Inr r, evs')"
    by auto
  have both: "(if truthy stream_to then content r = None \<and> file_path r \<noteq> None
               else content r \<noteq> None \<and> file_path r = None)"
  proof (cases "truthy stream_to")
    case True
    from from_response_streamed [OF True fr] True show ?thesis by auto
  next
    case False
    from from_response_buffered [OF False fr] False show ?thesis by auto
  qed
  then show "(content r \<noteq> None) \<noteq> (file_path r \<noteq> None)"
    by (auto split: if_splits)
  from both show "(if truthy stream_to then content r = None \<and> file_path r \<noteq> None
               else content r \<noteq> None \<and> file_path r = None)" .
next
  assume h: "(\<forall>n. 1 \<le> n \<and> n \<le> k \<longrightarrow>
          fails_retriably (fetch_once L (world n) u method stream_to headers0) \<and> int n \<noteq> retries)
       \<and> (method = ''GET'' \<or> method = ''POST'')
       \<and> (if method = ''GET'' then session_get (world (Suc k)) else session_post (world (Suc k)))
            u (headers_or_default headers0) = Inr resp
       \<and> resp_get_encoding resp = Inr enc
       \<and> (\<not> truthy stream_to \<and> resp_read resp = Inr raw
          \<or> stream_to = Some target \<and> target \<noteq> []
            \<and> open_wb (world (Suc k)) (path_str L target) = None
            \<and> resp_iter_chunked resp CHUNK_SIZE = (chunks, None))"
  then have ge: "resp_get_encoding resp = Inr enc" and m: "method = ''GET'' \<or> method = ''POST''"
    and ans: "(if method = ''GET'' then session_get (world (Suc k)) else session_post (world (Suc k)))
                u (headers_or_default headers0) = Inr resp"
    and rounds: "\<forall>n. 1 \<le> n \<and> n \<le> k \<longrightarrow>
        fails_retriably (fetch_once L (world n) u method stream_to headers0) \<and> int n \<noteq> retries"
    and kinds: "\<not> truthy stream_to \<and> resp_read resp = Inr raw
          \<or> stream_to = Some target \<and> target \<noteq> []
            \<and> open_wb (world (Suc k)) (path_str L target) = None
            \<and> resp_iter_chunked resp CHUNK_SIZE = (chunks, None)"
    by blast+
  from kinds
  show "\<exists>r' tr'.
            fetch_with_retries L world retries u method stream_to headers0 = Some (Inr r', tr')
          \<and> (if truthy stream_to then content r' = None \<and> file_path r' = Some (path_str L target)
              else content r' \<noteq> None \<and> file_path r' = None)"
  proof
    assume b: "\<not> truthy stream_to \<and> resp_read resp = Inr raw"
    then have nt: "\<not> truthy stream_to" and rd: "resp_read resp = Inr raw" by simp_all
    from from_response_buffered_returns [OF nt rd ge, of L "world (Suc k)" u "utcnow (world (Suc k))"]
    obtain r' evs where
      fr: "from_response L (world (Suc k)) u resp (utcnow (world (Suc k))) stream_to = (Inr r', evs)"
      and r: "content r' \<noteq> None" "file_path r' = None"
      by auto
    from fetch_with_retries_returns [OF rounds fetch_once_returns [OF m ans fr]] r nt
    show ?thesis by auto
  next
    assume s: "stream_to = Some target \<and> target \<noteq> []
            \<and> open_wb (world (Suc k)) (path_str L target) = None
            \<and> resp_iter_chunked resp CHUNK_SIZE = (chunks, None)"
    then have st: "stream_to = Some target" and ne: "target \<noteq> []"
      and op: "open_wb (world (Suc k)) (path_str L target) = None"
      and it: "resp_iter_chunked resp CHUNK_SIZE = (chunks, None)"
      by simp_all
    have t: "truthy stream_to" using st ne by (cases target) simp_all
    from from_response_streamed_returns [OF st ne op it ge, of u "utcnow (world (Suc k))"]
    obtain r' evs where
      fr: "from_response L (world (Suc k)) u resp (utcnow (world (Suc k))) stream_to = (Inr r', evs)"
      and r: "content r' = None" "file_path r' = Some (path_str L target)"
      by auto
    from fetch_with_retries_returns [OF rounds fetch_once_returns [OF m ans fr]] r t
    show ?thesis by auto
  qed
qed

theorem exactly_one_of_content_and_path_witness:
  "fetch_with_retries small_libs (flaky_world gzipped_page) 3 ''http://example.com'' ''GET'' None None =
     Some (Inr gzipped_page_resource,
       [Attempt 1 [Session_get ''http://example.com'' DEFAULT_HEADERS],
        Sleep 2,
        Attempt 2 [Session_get ''http://example.com'' DEFAULT_HEADERS, Resp_read, Hash_update [0x68, 0x69]]])
   \<and> content gzipped_page_resource = Some [0x68, 0x69] \<and> file_path gzipped_page_resource = None
   \<and> fetch_with_retries small_libs (steady_world gzip_download) 3 ''http://example.com/blob'' ''GET''
        (Some ''out.bin'') None =
      Some (Inr gzip_download_resource,
        [Attempt 1
          [Session_get ''http://example.com/blob'' DEFAULT_HEADERS,
           Open_wb ''out.bin'',
           Next_chunk [0x68, 0x69], Hash_update [0x68, 0x69], File_write ''out.bin'' [0x68, 0x69],
           File_close ''out.bin'']])
   \<and> content gzip_download_resource = None \<and> file_path gzip_download_resource = Some ''out.bin''"
proof -
  have a: "(content gzipped_page_resource \<noteq> None) \<noteq> (file_path gzipped_page_resource \<noteq> None)
        \<and> (if truthy None then content gzipped_page_resource = None \<and> file_path gzipped_page_resource \<noteq> None
            else content gzipped_page_resource \<noteq> None \<and> file_path gzipped_page_resource = None)"
    using exactly_one_of_content_and_path
            [of small_libs "flaky_world gzipped_page" 3 "''http://example.com''" "''GET''" None None
                gzipped_page_resource]
          buffered_run
    by blast
  have b: "(content gzip_download_resource \<noteq> None) \<noteq> (file_path gzip_download_resource \<noteq> None)
        \<and> (if truthy (Some ''out.bin'') then content gzip_download_resource = None
                \<and> file_path gzip_download_resource \<noteq> None
            else content gzip_download_resource \<noteq> None \<and> file_path gzip_download_resource = None)"
    using exactly_one_of_content_and_path
            [of small_libs "steady_world gzip_download" 3 "''http://example.com/blob''" "''GET''"
                "Some ''out.bin''" None gzip_download_resource]
          gzip_download_run
    by blast
  from a b buffered_run gzip_download_run show ?thesis
    by (simp add: gzipped_page_resource_def gzip_download_resource_def)
qed

section \<open>Claim about the request headers\<close>



end
